theory Spec2Isabelle
  imports Complex_Main
begin

section \<open>The conversion pipeline controller of \<open>useSheetMusicProcessor.ts\<close>\<close>

text \<open>
  The hook \<open>useSheetMusicProcessor\<close> keeps seven \<open>useState\<close> cells and exposes the
  asynchronous callback \<open>processFile\<close>. The model below follows the source line by line:
  the state cells are a record that is passed explicitly, every \<open>await\<close> is a point at
  which the state is observable by the caller (a render), and the run of one job is the list
  of the states observable at those points, ending with the terminal state.

  Numbers. JavaScript numbers are IEEE doubles. Integer-valued quantities (progress, durations,
  note and measure counts) are \<open>int\<close>; quantities with a fractional part (confidence, the
  time multiplier and the estimate, the tempo, the random draws) are \<open>rat\<close>, with exact
  arithmetic. The products of the estimate (\<open>11500 * 1.5\<close>) are exact in doubles, and
  \<open>n * 0.6\<close> and \<open>n * 0.4\<close> round to the exact product wherever that is an integer, so
  \<open>Math.floor\<close> of them is the floor of the exact product. On a random draw the model is
  an idealisation: a product such as \<open>Math.random() * 200\<close> and a comparison such as
  \<open>Math.random() < 0.15\<close> can differ from the exact one for a draw within one rounding
  error of a boundary; the values each expression can take are the same. The index of the
  error template, on which the kind of a failure depends, is for that reason not computed
  from a draw: the environment gives the value of the expression of line 230. \<open>NaN\<close> and
  the infinities are not values of the model.
\<close>

subsection \<open>Data model (lines 3 to 59)\<close>

datatype error_type = Blur | Notation | Format | Handwritten | Multiple_signatures | Unknown

datatype processing_mode = Standard | Enhanced | Manual_assist

datatype processing_status =
  Idle | Uploading | Analyzing | Processing | Generating | Success | Error | Partial_success

text \<open>
  \<open>Partial<DetectedElements>\<close>: every field may be absent (\<open>None\<close> is JavaScript's
  \<open>undefined\<close>). The type \<open>DetectedElements\<close> itself is the same object with all fields
  present; the cast \<open>detectedElements as DetectedElements\<close> of line 280 does nothing at run
  time, so one record serves for both.
\<close>

record detected_elements =
  timeSignature :: "string option"
  keySignature :: "string option"
  tempo :: "rat option"
  tempoMarking :: "string option"
  clefs :: "string list option"
  noteCount :: "int option"
  measures :: "int option"
  dynamics :: "string list option"
  articulations :: "string list option"

record track_info =
  name :: string
  instrument :: string
  clef :: string
  track_noteCount :: int

record midi_metadata =
  meta_title :: string
  meta_composer :: string
  copyright :: string
  meta_processingDate :: string
  software :: string
  tracks :: "track_info list"

record processing_result =
  fileName :: string
  midiData :: "nat list"
  title :: string
  composer :: string
  processingDate :: string
  confidence :: rat
  result_detectedElements :: detected_elements
  metadata :: midi_metadata

record processing_error =
  err_type :: error_type
  message :: string
  suggestions :: "string list"
  err_confidence :: rat

record processing_options =
  preferredTempo :: "rat option"
  preferredKey :: "string option"
  selectedPages :: "int list option"
  processingMode :: processing_mode
  includeChords :: bool
  includeLyrics :: bool
  separateTracks :: bool

text \<open>The seven \<open>useState\<close> cells of lines 62 to 68.\<close>

record hook_state =
  status :: processing_status
  progress :: int
  currentStep :: string
  result :: "processing_result option"
  error :: "processing_error option"
  estimatedTime :: rat
  detectedElements :: detected_elements

definition empty_elements :: detected_elements where
  "empty_elements =
     \<lparr>timeSignature = None, keySignature = None, tempo = None, tempoMarking = None,
      clefs = None, noteCount = None, measures = None, dynamics = None,
      articulations = None\<rparr>"

text \<open>The initial values given to \<open>useState\<close> (lines 62 to 68).\<close>

definition initial_state :: hook_state where
  "initial_state =
     \<lparr>status = Idle, progress = 0, currentStep = [], result = None, error = None,
      estimatedTime = 0, detectedElements = empty_elements\<rparr>"

subsection \<open>The failure templates (lines 200 to 228)\<close>

record error_template =
  tmpl_type :: error_type
  tmpl_message :: string
  tmpl_suggestions :: "string list"

definition errorTypes :: "error_template list" where
  "errorTypes =
     [\<lparr>tmpl_type = Blur,
       tmpl_message = ''Image resolution too low for accurate note recognition'',
       tmpl_suggestions =
         [''Try scanning at 300 DPI or higher'',
          ''Ensure good lighting when photographing'',
          ''Use a flatbed scanner for best results'']\<rparr>,
      \<lparr>tmpl_type = Notation,
       tmpl_message = ''Complex notation style not fully supported'',
       tmpl_suggestions =
         [''Try using standard notation without extensive markings'',
          ''Consider using enhanced processing mode'',
          ''Manual assistance mode may help with complex scores'']\<rparr>,
      \<lparr>tmpl_type = Handwritten,
       tmpl_message = ''Handwritten notation detected - accuracy significantly reduced'',
       tmpl_suggestions =
         [''Use printed or engraved sheet music for best results'',
          ''Try enhanced processing mode for handwritten scores'',
          ''Consider manual correction of detected notes'']\<rparr>]"

subsection \<open>The environment: files, random draws and the clock\<close>

text \<open>Of the \<open>File\<close> argument the code reads only \<open>file.name\<close> (line 167).\<close>

record js_file =
  file_name :: string

text \<open>
  \<open>Math.random()\<close> returns a number that is at least 0 and less than 1. A draw is a value
  of that interval, so the model has no run with a draw outside it.
\<close>

typedef unit_draw = "{r :: rat. 0 \<le> r \<and> r < 1}"
  by (rule exI [of _ 0]) simp

text \<open>
  The value of \<open>Math.floor(Math.random() * errorTypes.length)\<close> (line 230). The code floors
  the double product, which for a draw within one rounding error below \<open>1/3\<close> or \<open>2/3\<close> is
  the next integer and not the floor of the exact product; so the model does not compute the
  index from a draw but takes the value of the whole expression from the environment. The
  product of a double below 1 with 3 rounds to a double below 3, so that value is an index
  of \<open>errorTypes\<close>, and every such index is the value for some draw.
\<close>

typedef template_index = "{k :: nat. k < length errorTypes}"
  by (rule exI [of _ 0]) (simp add: errorTypes_def)

text \<open>
  One field for each call site of \<open>Math.random()\<close>, in the order of the source (lines 139,
  140, 196, 197, 230, 233 and the hundred calls of line 270), and one for each reading of the
  clock (lines 259, 260 and 278). The field for line 230 holds the index computed there.
\<close>

record environment =
  rnd_noteCount :: unit_draw
  rnd_measures :: unit_draw
  rnd_shouldFail :: unit_draw
  rnd_shouldPartialFail :: unit_draw
  rnd_errorIndex :: template_index
  rnd_errorConfidence :: unit_draw
  rnd_midi :: "nat \<Rightarrow> unit_draw"
  clock_fullYear :: string
  clock_iso_metadata :: string
  clock_iso_result :: string

subsection \<open>String operations of JavaScript used by the code\<close>

text \<open>
  Strings are lists of 8-bit characters read as Latin-1 code points (\<open>CHR 0xE9\<close> is the
  e with acute accent of line 187, \<open>CHR 0xA9\<close> the copyright sign of line 259). On these
  \<open>toLowerCase\<close> maps A to Z, and the capital letters \<open>0xC0\<close> to \<open>0xDE\<close> other than the
  multiplication sign \<open>0xD7\<close>, to the code point 32 above. File names with code points
  above 255 are outside the model.
\<close>

definition lower_char :: "char \<Rightarrow> char" where
  "lower_char c =
     (let n = (of_char c :: nat)
      in if (65 \<le> n \<and> n \<le> 90) \<or> (192 \<le> n \<and> n \<le> 222 \<and> n \<noteq> 215)
         then char_of (n + 32) else c)"

definition toLowerCase :: "string \<Rightarrow> string" where
  "toLowerCase s = map lower_char s"

text \<open>\<open>s.includes(sub)\<close>: \<open>sub\<close> occurs in \<open>s\<close> as a contiguous run.\<close>

fun starts_with :: "string \<Rightarrow> string \<Rightarrow> bool" where
  "starts_with s [] = True"
| "starts_with [] (c # sub) = False"
| "starts_with (d # s) (c # sub) = (d = c \<and> starts_with s sub)"

fun js_includes :: "string \<Rightarrow> string \<Rightarrow> bool" where
  "js_includes [] sub = starts_with [] sub"
| "js_includes (d # s) sub = (starts_with (d # s) sub \<or> js_includes s sub)"

text \<open>\<open>s.replace(/[^a-z0-9]/g, '-')\<close> of line 274.\<close>

definition is_lower_alnum :: "char \<Rightarrow> bool" where
  "is_lower_alnum c =
     (let n = (of_char c :: nat) in (97 \<le> n \<and> n \<le> 122) \<or> (48 \<le> n \<and> n \<le> 57))"

definition replace_non_alnum :: "string \<Rightarrow> string" where
  "replace_non_alnum s = map (\<lambda>c. if is_lower_alnum c then c else CHR ''-'') s"

text \<open>
  \<open>x || d\<close> on an optional number: \<open>d\<close> when \<open>x\<close> is \<open>undefined\<close> or 0 (the
  falsy numbers of the model), else \<open>x\<close>.
\<close>

definition js_or :: "'a::zero option \<Rightarrow> 'a \<Rightarrow> 'a" where
  "js_or x d = (case x of None \<Rightarrow> d | Some v \<Rightarrow> if v = 0 then d else v)"

subsection \<open>The stage catalogue and the time estimate (lines 79 to 97)\<close>

record base_step =
  step :: string
  duration :: int
  step_progress :: int

definition baseSteps :: "base_step list" where
  "baseSteps =
     [\<lparr>step = ''Uploading and validating file...'', duration = 800, step_progress = 5\<rparr>,
      \<lparr>step = ''Preprocessing and image enhancement...'', duration = 1200, step_progress = 15\<rparr>,
      \<lparr>step = ''Detecting staff lines and layout...'', duration = 1500, step_progress = 25\<rparr>,
      \<lparr>step = ''Identifying clefs and key signatures...'', duration = 1000, step_progress = 35\<rparr>,
      \<lparr>step = ''Recognizing note heads and stems...'', duration = 2000, step_progress = 55\<rparr>,
      \<lparr>step = ''Analyzing rhythmic patterns...'', duration = 1500, step_progress = 70\<rparr>,
      \<lparr>step = ''Processing dynamics and articulations...'', duration = 1000, step_progress = 80\<rparr>,
      \<lparr>step = ''Extracting tempo and expression marks...'', duration = 800, step_progress = 85\<rparr>,
      \<lparr>step = ''Generating MIDI structure...'', duration = 1200, step_progress = 95\<rparr>,
      \<lparr>step = ''Finalizing and optimizing...'', duration = 500, step_progress = 100\<rparr>]"

definition timeMultiplier :: "processing_options \<Rightarrow> rat" where
  "timeMultiplier options =
     (if processingMode options = Enhanced then 3 / 2
      else if processingMode options = Manual_assist then 2 else 1)"

text \<open>Line 96: \<open>baseSteps.reduce((sum, step) => sum + step.duration, 0) * timeMultiplier\<close>.\<close>

definition totalTime :: "processing_options \<Rightarrow> rat" where
  "totalTime options =
     of_int (foldl (\<lambda>sum st. sum + duration st) 0 baseSteps) * timeMultiplier options"

subsection \<open>The stages (lines 99 to 164)\<close>

text \<open>
  The updates \<open>setDetectedElements(prev => ({...prev, ...}))\<close> of the analysis loop (lines 112
  to 125) and of the processing loop (lines 136 to 155): a functional update of the state
  cell, which overwrites the named fields and keeps the others.
\<close>

definition detect_analysis ::
  "processing_options \<Rightarrow> nat \<Rightarrow> detected_elements \<Rightarrow> detected_elements" where
  "detect_analysis options i prev =
     (let prev2 = (if i = 2
                   then prev\<lparr>timeSignature := Some ''4/4'',
                             clefs := Some [''Treble'', ''Bass'']\<rparr>
                   else prev)
      in if i = 3
         then prev2\<lparr>keySignature := Some ''C Major'',
                    tempo := Some (js_or (preferredTempo options) 120)\<rparr>
         else prev2)"

definition detect_processing ::
  "environment \<Rightarrow> nat \<Rightarrow> detected_elements \<Rightarrow> detected_elements" where
  "detect_processing env i prev =
     (let prev5 = (if i = 5
                   then prev\<lparr>noteCount :=
                               Some (\<lfloor>Rep_unit_draw (rnd_noteCount env) * 200\<rfloor> + 50),
                             measures :=
                               Some (\<lfloor>Rep_unit_draw (rnd_measures env) * 32\<rfloor> + 16)\<rparr>
                   else prev);
          prev6 = (if i = 6
                   then prev5\<lparr>dynamics := Some [''p'', ''mf'', ''f''],
                              articulations := Some [''staccato'', ''legato'']\<rparr>
                   else prev5)
      in if i = 7 then prev6\<lparr>tempoMarking := Some ''Moderato''\<rparr> else prev6)"

text \<open>
  What one iteration does after its \<open>await\<close>: \<open>setProgress\<close>, then the detection of that
  stage. The indices are those of the three loops, all within \<open>baseSteps\<close>.
\<close>

definition analysis_body :: "processing_options \<Rightarrow> nat \<Rightarrow> hook_state \<Rightarrow> hook_state" where
  "analysis_body options i s =
     (let s1 = s\<lparr>progress := step_progress (baseSteps ! i)\<rparr>
      in s1\<lparr>detectedElements := detect_analysis options i (detectedElements s1)\<rparr>)"

definition processing_body :: "environment \<Rightarrow> nat \<Rightarrow> hook_state \<Rightarrow> hook_state" where
  "processing_body env i s =
     (let s1 = s\<lparr>progress := step_progress (baseSteps ! i)\<rparr>
      in s1\<lparr>detectedElements := detect_processing env i (detectedElements s1)\<rparr>)"

definition generation_body :: "nat \<Rightarrow> hook_state \<Rightarrow> hook_state" where
  "generation_body i s = s\<lparr>progress := step_progress (baseSteps ! i)\<rparr>"

text \<open>
  A \<open>for\<close> loop over stage indices. Each iteration sets the step label (\<open>setCurrentStep\<close>),
  waits (the state \<open>waiting\<close> is what the caller observes during the \<open>await\<close>), then runs
  the rest of its body. The result is the list of the observable states and the state at
  the loop's exit.
\<close>

fun run_loop ::
  "(nat \<Rightarrow> hook_state \<Rightarrow> hook_state) \<Rightarrow> nat list \<Rightarrow> hook_state
     \<Rightarrow> hook_state list \<times> hook_state" where
  "run_loop body [] s = ([], s)"
| "run_loop body (i # rest) s =
     (let waiting = s\<lparr>currentStep := step (baseSteps ! i)\<rparr>;
          (observed, exit_state) = run_loop body rest (body i waiting)
      in (waiting # observed, exit_state))"

subsection \<open>Recognition of title and composer (lines 167 to 193)\<close>

text \<open>The argument is \<open>file.name.toLowerCase()\<close>; the result is (title, composer, confidence).\<close>

definition recognise :: "string \<Rightarrow> string \<times> string \<times> rat" where
  "recognise lowered =
     (if js_includes lowered ''amore'' \<or> js_includes lowered ''piccioni''
      then (''Amore Mio Aiutami'', ''Piero Piccioni'', 95 / 100)
      else if js_includes lowered ''mozart''
      then (''Piano Sonata'', ''Wolfgang Amadeus Mozart'', 92 / 100)
      else if js_includes lowered ''bach''
      then (''Two-Part Invention'', ''Johann Sebastian Bach'', 90 / 100)
      else if js_includes lowered ''chopin''
      then (''Nocturne'', ''Fr'' @ [CHR 0xE9] @ ''d'' @ [CHR 0xE9] @ ''ric Chopin'', 88 / 100)
      else if js_includes lowered ''beethoven''
      then (''Piano Sonata'', ''Ludwig van Beethoven'', 91 / 100)
      else (''Sheet Music'', ''Unknown'', 85 / 100))"

subsection \<open>Failure: the thrown error and the handler (lines 196 to 235 and 293 to 309)\<close>

text \<open>Lines 196 and 197: the two draws that decide the outcome of the job.\<close>

definition shouldFail :: "environment \<Rightarrow> bool" where
  "shouldFail env = (Rep_unit_draw (rnd_shouldFail env) < 1 / 10)"

definition shouldPartialFail :: "environment \<Rightarrow> bool" where
  "shouldPartialFail env = (Rep_unit_draw (rnd_shouldPartialFail env) < 15 / 100)"

text \<open>
  The message of a thrown \<open>Error\<close>. \<open>Json_text e\<close> is the text \<open>JSON.stringify\<close> produces
  for an object with the four fields of \<open>e\<close>; \<open>JSON.parse\<close> gives that object back (strings,
  an array of strings and a finite number survive the round trip). \<open>Plain_text m\<close> is any
  message that is not JSON, on which \<open>JSON.parse\<close> throws.
\<close>

datatype error_message = Json_text processing_error | Plain_text string

text \<open>
  Lines 230 to 234: \<open>errorTypes[Math.floor(Math.random() * errorTypes.length)]\<close>, spread
  into a new object together with \<open>confidence: Math.random() * 0.3 + 0.1\<close>. The index is
  the one the environment gives for line 230; it is below \<open>length errorTypes\<close> (lemma
  \<open>error_index_in_range\<close>), so the read is never out of range.
\<close>

definition error_index :: "environment \<Rightarrow> nat" where
  "error_index env = Rep_template_index (rnd_errorIndex env)"

definition thrown_error :: "environment \<Rightarrow> processing_error" where
  "thrown_error env =
     (let randomError = errorTypes ! error_index env
      in \<lparr>err_type = tmpl_type randomError,
          message = tmpl_message randomError,
          suggestions = tmpl_suggestions randomError,
          err_confidence = Rep_unit_draw (rnd_errorConfidence env) * (3 / 10) + 1 / 10\<rparr>)"

text \<open>
  The \<open>catch\<close> block, lines 293 to 309: the error data is the parsed message or, when
  the message does not parse, the \<open>unknown\<close> error built from it; then \<open>setError\<close> and
  \<open>setStatus('error')\<close>. The only \<open>throw\<close> of the \<open>try\<close> block is that of line 231,
  an \<open>Error\<close> whose message is JSON.
\<close>

definition catch_handler :: "error_message \<Rightarrow> hook_state \<Rightarrow> hook_state" where
  "catch_handler err s =
     (let errorData =
            (case err of
               Json_text e \<Rightarrow> e
             | Plain_text m \<Rightarrow>
                 \<lparr>err_type = Unknown, message = m,
                  suggestions = [''Try a different file'', ''Check file format and quality''],
                  err_confidence = 1 / 10\<rparr>)
      in (s\<lparr>error := Some errorData\<rparr>)\<lparr>status := Error\<rparr>)"

subsection \<open>Finalization (lines 166 to 291)\<close>

text \<open>
  \<open>captured\<close> is the value of the variable \<open>detectedElements\<close> that the body of
  \<open>processFile\<close> reads at lines 243, 247, 252 and 280. That variable is the constant bound
  by \<open>const [detectedElements, setDetectedElements] = useState(...)\<close> in the render that
  created the callback; \<open>setDetectedElements\<close> changes the state cell, which later renders
  read, and never this constant. It is therefore a parameter of the body, distinct from the
  cell \<open>detectedElements\<close> of the state that the stages update.
\<close>

definition derive_tracks :: "detected_elements \<Rightarrow> track_info list" where
  "derive_tracks captured =
     (let tracks =
            [\<lparr>name = ''Treble Clef'', instrument = ''Piano'', clef = ''Treble'',
              track_noteCount = \<lfloor>of_int (js_or (noteCount captured) 100) * (6 / 10 :: rat)\<rfloor>\<rparr>]
      in if (case clefs captured of None \<Rightarrow> False | Some cs \<Rightarrow> ''Bass'' \<in> set cs)
         then tracks @
              [\<lparr>name = ''Bass Clef'', instrument = ''Piano'', clef = ''Bass'',
                track_noteCount =
                  \<lfloor>of_int (js_or (noteCount captured) 100) * (4 / 10 :: rat)\<rfloor>\<rparr>]
         else tracks)"

definition mockMidiData :: "environment \<Rightarrow> nat list" where
  "mockMidiData env =
     [0x4D, 0x54, 0x68, 0x64, 0x00, 0x00, 0x00, 0x06, 0x00, 0x01, 0x00, 0x02, 0x01, 0xE0] @
     map (\<lambda>k. nat \<lfloor>Rep_unit_draw (rnd_midi env k) * 256\<rfloor>) [0..<100]"

text \<open>The object \<open>metadata\<close> of lines 256 to 263.\<close>

definition make_metadata ::
  "detected_elements \<Rightarrow> string \<Rightarrow> string \<Rightarrow> environment \<Rightarrow> midi_metadata" where
  "make_metadata captured title_v composer_v env =
     \<lparr>meta_title = title_v, meta_composer = composer_v,
      copyright = [CHR 0xA9] @ '' '' @ clock_fullYear env @ '' - Processed by Sheet2MIDI'',
      meta_processingDate = clock_iso_metadata env,
      software = ''Sheet2MIDI v2.0'',
      tracks = derive_tracks captured\<rparr>"

text \<open>The object \<open>finalResult\<close> as lines 273 to 282 build it.\<close>

definition finalResult :: "detected_elements \<Rightarrow> js_file \<Rightarrow> environment \<Rightarrow> processing_result" where
  "finalResult captured file env =
     (let (title_v, composer_v, confidence_v) = recognise (toLowerCase (file_name file))
      in \<lparr>fileName = replace_non_alnum (toLowerCase title_v) @ ''.mid'',
          midiData = mockMidiData env,
          title = title_v, composer = composer_v,
          processingDate = clock_iso_result env,
          confidence = confidence_v,
          result_detectedElements = captured,
          metadata = make_metadata captured title_v composer_v env\<rparr>)"

text \<open>
  The rest of the \<open>try\<close> block after the last stage. \<open>Inl\<close> is the \<open>throw\<close> of line 231,
  which leaves the block before any state cell is set; \<open>Inr\<close> is the state after
  \<open>setStatus\<close> and \<open>setResult\<close> (lines 284 to 291), where the partial failure first
  overwrites the confidence of the result (line 286).
\<close>

definition finalization ::
  "detected_elements \<Rightarrow> js_file \<Rightarrow> environment \<Rightarrow> hook_state \<Rightarrow> error_message + hook_state"
  where
  "finalization captured file env s =
     (if shouldFail env then Inl (Json_text (thrown_error env))
      else if shouldPartialFail env
      then Inr ((s\<lparr>status := Partial_success\<rparr>)
                  \<lparr>result := Some ((finalResult captured file env)\<lparr>confidence := 65 / 100\<rparr>)\<rparr>)
      else Inr ((s\<lparr>status := Success\<rparr>)\<lparr>result := Some (finalResult captured file env)\<rparr>))"

subsection \<open>\<open>processFile\<close> (lines 70 to 310)\<close>

text \<open>
  The state the run has reached when the last stage is done (line 164), together with the
  states observable at the ten \<open>await\<close>s before it. The timers themselves (how long each
  \<open>await\<close> lasts) are not part of the state.
\<close>

definition run_stages ::
  "processing_options \<Rightarrow> environment \<Rightarrow> hook_state \<Rightarrow> hook_state list \<times> hook_state" where
  "run_stages options env s0 =
     (let s1 = s0\<lparr>status := Uploading, progress := 0, error := None, result := None,
                  detectedElements := empty_elements\<rparr>;
          s2 = s1\<lparr>estimatedTime := totalTime options\<rparr>;
          uploading_state = s2\<lparr>status := Uploading\<rparr>;
          s3 = uploading_state\<lparr>progress := step_progress (baseSteps ! 0)\<rparr>;
          s4 = s3\<lparr>status := Analyzing\<rparr>;
          (analysis_states, s5) = run_loop (analysis_body options) [1..<4] s4;
          s6 = s5\<lparr>status := Processing\<rparr>;
          (processing_states, s7) = run_loop (processing_body env) [4..<8] s6;
          s8 = s7\<lparr>status := Generating\<rparr>;
          (generation_states, s9) = run_loop generation_body [8..<10] s8
      in (uploading_state # analysis_states @ processing_states @ generation_states, s9))"

text \<open>
  The whole callback, for a given value of the captured variable: the states observable
  during the stages, then the terminal state, which is the outcome of the finalization or,
  when it throws, of the \<open>catch\<close> block.
\<close>

definition processFile_closure ::
  "detected_elements \<Rightarrow> js_file \<Rightarrow> processing_options \<Rightarrow> environment \<Rightarrow> hook_state
     \<Rightarrow> hook_state list" where
  "processFile_closure captured file options env s0 =
     (let (observed, s) = run_stages options env s0;
          terminal = (case finalization captured file env s of
                        Inl err \<Rightarrow> catch_handler err s
                      | Inr s' \<Rightarrow> s')
      in observed @ [terminal])"

text \<open>
  The callback the hook returns. It is created by \<open>useCallback(..., [])\<close> (line 310): with
  an empty dependency list React keeps the function made by the first render, in which
  \<open>detectedElements\<close> is the initial value \<open>{}\<close> of line 68.
\<close>

definition processFile ::
  "js_file \<Rightarrow> processing_options \<Rightarrow> environment \<Rightarrow> hook_state \<Rightarrow> hook_state list" where
  "processFile = processFile_closure (detectedElements initial_state)"

text \<open>The terminal state of a run.\<close>

definition terminal_state ::
  "js_file \<Rightarrow> processing_options \<Rightarrow> environment \<Rightarrow> hook_state \<Rightarrow> hook_state" where
  "terminal_state file options env s0 = last (processFile file options env s0)"

subsection \<open>Concrete inputs\<close>

text \<open>
  A file, options and an environment on which the definitions are evaluated. The two
  arguments of \<open>example_env\<close> are the draws of lines 196 and 197, which decide between
  failure, partial success and success; they are taken within the unit interval. The
  other inputs are fixed: a note count of 150, 24 measures, the error index 0.
\<close>

definition example_file :: js_file where
  "example_file = \<lparr>file_name = ''Bach_Invention.PNG''\<rparr>"

definition example_options :: processing_options where
  "example_options =
     \<lparr>preferredTempo = None, preferredKey = None, selectedPages = None,
      processingMode = Standard, includeChords = False, includeLyrics = False,
      separateTracks = False\<rparr>"

definition example_env :: "rat \<Rightarrow> rat \<Rightarrow> environment" where
  "example_env fail partial =
     \<lparr>rnd_noteCount = Abs_unit_draw (1 / 2), rnd_measures = Abs_unit_draw (1 / 4),
      rnd_shouldFail = Abs_unit_draw fail, rnd_shouldPartialFail = Abs_unit_draw partial,
      rnd_errorIndex = Abs_template_index 0, rnd_errorConfidence = Abs_unit_draw (1 / 2),
      rnd_midi = (\<lambda>k. Abs_unit_draw 0),
      clock_fullYear = ''2025'', clock_iso_metadata = ''2025-01-01T00:00:00.000Z'',
      clock_iso_result = ''2025-01-01T00:00:00.000Z''\<rparr>"

text \<open>
  A job in flight: the state the caller observes while the stage with index 5 of the example
  run is waiting.
\<close>

definition active_job :: hook_state where
  "active_job =
     processFile example_file example_options (example_env (1 / 2) (1 / 2)) initial_state ! 5"

section \<open>Properties\<close>

subsection \<open>Auxiliary facts: draws\<close>

lemma draw_bounds: "0 \<le> Rep_unit_draw d \<and> Rep_unit_draw d < 1"
  using Rep_unit_draw [of d] by simp

lemma draw_value: "0 \<le> r \<Longrightarrow> r < 1 \<Longrightarrow> Rep_unit_draw (Abs_unit_draw r) = r"
  by (simp add: Abs_unit_draw_inverse)

lemma error_index_in_range: "error_index env < length errorTypes"
  using Rep_template_index [of "rnd_errorIndex env"] by (simp add: error_index_def)

lemma error_index_cases: "error_index env = 0 \<or> error_index env = 1 \<or> error_index env = 2"
  using error_index_in_range [of env] by (auto simp add: errorTypes_def)

lemma thrown_error_template:
  "err_type (thrown_error env) = tmpl_type (errorTypes ! error_index env)
   \<and> message (thrown_error env) = tmpl_message (errorTypes ! error_index env)
   \<and> suggestions (thrown_error env) = tmpl_suggestions (errorTypes ! error_index env)"
  by (simp add: thrown_error_def Let_def)

lemma thrown_error_type:
  "err_type (thrown_error env) = [Blur, Notation, Handwritten] ! error_index env"
  using error_index_cases [of env] by (auto simp add: thrown_error_def Let_def errorTypes_def)

lemma thrown_error_suggestions: "length (suggestions (thrown_error env)) = 3"
  using error_index_cases [of env] by (auto simp add: thrown_error_def Let_def errorTypes_def)

subsection \<open>Auxiliary facts: the stages\<close>

lemmas stage_defs = run_stages_def Let_def baseSteps_def analysis_body_def processing_body_def
  generation_body_def upt_rec

lemma run_stages_length: "length (fst (run_stages options env start)) = 10"
  by (simp add: stage_defs)

lemma run_stages_progress:
  "map progress (fst (run_stages options env start)) = [0, 5, 15, 25, 35, 55, 70, 80, 85, 95]"
  by (simp add: stage_defs)

lemma run_stages_status:
  "map status (fst (run_stages options env start)) =
     [Uploading, Analyzing, Analyzing, Analyzing, Processing, Processing, Processing, Processing,
      Generating, Generating]"
  by (simp add: stage_defs)

lemma run_stages_estimate:
  "map estimatedTime (fst (run_stages options env start)) = replicate 10 (totalTime options)"
  by (simp add: stage_defs numeral_eq_Suc)

lemma run_stages_tempo:
  "map (tempo \<circ> detectedElements) (fst (run_stages options env start)) =
     replicate 4 None @ replicate 6 (Some (js_or (preferredTempo options) 120))"
  by (simp add: stage_defs detect_analysis_def detect_processing_def empty_elements_def
      numeral_eq_Suc)

lemma run_stages_hd:
  "hd (fst (run_stages options env start)) =
     start\<lparr>status := Uploading, progress := 0, error := None, result := None,
        detectedElements := empty_elements, estimatedTime := totalTime options\<rparr>"
  by (simp add: stage_defs)

text \<open>The state in which the last stage leaves the hook (line 164).\<close>

lemma run_stages_exit:
  "snd (run_stages options env start) =
     \<lparr>status = Generating, progress = 100, currentStep = ''Finalizing and optimizing...'',
      result = None, error = None, estimatedTime = totalTime options,
      detectedElements =
        \<lparr>timeSignature = Some ''4/4'', keySignature = Some ''C Major'',
         tempo = Some (js_or (preferredTempo options) 120),
         tempoMarking = Some ''Moderato'', clefs = Some [''Treble'', ''Bass''],
         noteCount = Some (\<lfloor>Rep_unit_draw (rnd_noteCount env) * 200\<rfloor> + 50),
         measures = Some (\<lfloor>Rep_unit_draw (rnd_measures env) * 32\<rfloor> + 16),
         dynamics = Some [''p'', ''mf'', ''f''],
         articulations = Some [''staccato'', ''legato'']\<rparr>\<rparr>"
  by (simp add: stage_defs detect_analysis_def detect_processing_def empty_elements_def)

lemma duration_sum: "sum_list (map duration baseSteps) = 11500"
  by (simp add: baseSteps_def)

lemma totalTime_sum:
  "totalTime options = of_int (sum_list (map duration baseSteps)) * timeMultiplier options"
  by (simp add: totalTime_def baseSteps_def)

lemma totalTime_positive: "0 < totalTime options"
  by (simp add: totalTime_def baseSteps_def timeMultiplier_def)

subsection \<open>Auxiliary facts: the terminal state\<close>

lemma processFile_split:
  "processFile doc options env start =
     fst (run_stages options env start) @ [terminal_state doc options env start]"
  by (simp add: terminal_state_def processFile_def processFile_closure_def Let_def
      case_prod_unfold)

lemma processFile_length: "length (processFile doc options env start) = 11"
  by (simp add: processFile_split run_stages_length)

lemma processFile_nth_stage:
  "i < 10 \<Longrightarrow> processFile doc options env start ! i = fst (run_stages options env start) ! i"
  by (simp add: processFile_split run_stages_length nth_append)

lemma processFile_hd:
  "hd (processFile doc options env start) =
     start\<lparr>status := Uploading, progress := 0, error := None, result := None,
        detectedElements := empty_elements, estimatedTime := totalTime options\<rparr>"
proof -
  have "hd (processFile doc options env start) = hd (fst (run_stages options env start))"
    using run_stages_length [of options env start]
    by (cases "fst (run_stages options env start)") (simp_all add: processFile_split)
  then show ?thesis
    by (simp add: run_stages_hd)
qed

lemma terminal_state_eq:
  "terminal_state doc options env start =
     (case finalization empty_elements doc env (snd (run_stages options env start)) of
        Inl err \<Rightarrow> catch_handler err (snd (run_stages options env start))
      | Inr s' \<Rightarrow> s')"
  by (simp add: terminal_state_def processFile_def processFile_closure_def Let_def
      initial_state_def case_prod_unfold)

lemma terminal_fail:
  assumes "shouldFail env"
  shows "terminal_state doc options env start =
           (snd (run_stages options env start))
             \<lparr>error := Some (thrown_error env), status := Error\<rparr>"
  using assms by (simp add: terminal_state_eq finalization_def catch_handler_def)

lemma terminal_partial:
  assumes "\<not> shouldFail env" and "shouldPartialFail env"
  shows "terminal_state doc options env start =
           (snd (run_stages options env start))
             \<lparr>status := Partial_success,
              result := Some ((finalResult empty_elements doc env)\<lparr>confidence := 65 / 100\<rparr>)\<rparr>"
  using assms by (simp add: terminal_state_eq finalization_def)

lemma terminal_success:
  assumes "\<not> shouldFail env" and "\<not> shouldPartialFail env"
  shows "terminal_state doc options env start =
           (snd (run_stages options env start))
             \<lparr>status := Success, result := Some (finalResult empty_elements doc env)\<rparr>"
  using assms by (simp add: terminal_state_eq finalization_def)

text \<open>The three outcomes of a run, as a case rule.\<close>

lemma terminal_cases:
  obtains
    (fail) "shouldFail env"
      "terminal_state doc options env start =
         (snd (run_stages options env start))
           \<lparr>error := Some (thrown_error env), status := Error\<rparr>"
  | (partial) "\<not> shouldFail env" "shouldPartialFail env"
      "terminal_state doc options env start =
         (snd (run_stages options env start))
           \<lparr>status := Partial_success,
            result := Some ((finalResult empty_elements doc env)\<lparr>confidence := 65 / 100\<rparr>)\<rparr>"
  | (success) "\<not> shouldFail env" "\<not> shouldPartialFail env"
      "terminal_state doc options env start =
         (snd (run_stages options env start))
           \<lparr>status := Success, result := Some (finalResult empty_elements doc env)\<rparr>"
  using terminal_fail terminal_partial terminal_success by blast

lemma terminal_progress:
  "progress (terminal_state doc options env start) =
     progress (snd (run_stages options env start))"
  by (rule terminal_cases [where env = env and doc = doc and options = options and start = start])
    simp_all

lemma terminal_estimate:
  "estimatedTime (terminal_state doc options env start) = totalTime options"
  by (rule terminal_cases [where env = env and doc = doc and options = options and start = start])
    (simp_all add: run_stages_exit)

lemma terminal_elements:
  "detectedElements (terminal_state doc options env start) =
     detectedElements (snd (run_stages options env start))"
  by (rule terminal_cases [where env = env and doc = doc and options = options and start = start])
    simp_all

lemma processFile_progress:
  "map progress (processFile doc options env start) =
     [0, 5, 15, 25, 35, 55, 70, 80, 85, 95, 100]"
  by (simp add: processFile_split run_stages_progress terminal_progress run_stages_exit)

lemma processFile_estimates:
  "map estimatedTime (processFile doc options env start) = replicate 11 (totalTime options)"
proof -
  have "map estimatedTime (processFile doc options env start) =
          replicate 10 (totalTime options) @ [totalTime options]"
    by (simp only: processFile_split map_append run_stages_estimate list.map terminal_estimate)
  also have "\<dots> = replicate 11 (totalTime options)"
    by (simp add: numeral_eq_Suc replicate_append_same)
  finally show ?thesis .
qed

lemma processFile_estimate_nth:
  assumes "i < 11"
  shows "estimatedTime (processFile doc options env start ! i) = totalTime options"
proof -
  have "estimatedTime (processFile doc options env start ! i) =
          map estimatedTime (processFile doc options env start) ! i"
    using assms by (simp add: processFile_length)
  also have "\<dots> = totalTime options"
    using assms by (simp only: processFile_estimates nth_replicate)
  finally show ?thesis .
qed

lemma processFile_tempo:
  "map (tempo \<circ> detectedElements) (processFile doc options env start) =
     replicate 4 None @ replicate 7 (Some (js_or (preferredTempo options) 120))"
proof -
  have "map (tempo \<circ> detectedElements) (processFile doc options env start) =
          (replicate 4 None @ replicate 6 (Some (js_or (preferredTempo options) 120)))
            @ [Some (js_or (preferredTempo options) 120)]"
    by (simp only: processFile_split map_append run_stages_tempo)
       (simp add: terminal_elements run_stages_exit)
  then show ?thesis
    by (simp add: numeral_eq_Suc replicate_append_same)
qed

subsection \<open>Auxiliary facts: the result object\<close>

lemma recognise_confidence:
  "0 \<le> snd (snd (recognise lowered)) \<and> snd (snd (recognise lowered)) \<le> 1"
  by (simp add: recognise_def)

lemma finalResult_confidence:
  "0 \<le> confidence (finalResult captured doc env) \<and> confidence (finalResult captured doc env) \<le> 1"
  using recognise_confidence [of "toLowerCase (file_name doc)"]
  by (simp add: finalResult_def case_prod_unfold Let_def)

lemma finalResult_elements: "result_detectedElements (finalResult captured doc env) = captured"
  by (simp add: finalResult_def case_prod_unfold Let_def)

lemma finalResult_tracks:
  "tracks (metadata (finalResult captured doc env)) = derive_tracks captured"
  by (simp add: finalResult_def make_metadata_def case_prod_unfold Let_def)

lemma derive_tracks_empty:
  "derive_tracks empty_elements =
     [\<lparr>name = ''Treble Clef'', instrument = ''Piano'', clef = ''Treble'', track_noteCount = 60\<rparr>]"
  by (simp add: derive_tracks_def empty_elements_def js_or_def)

text \<open>
  Whatever the stages of a job accumulate, the result that the hook's callback emits holds
  the value captured at the first render: no detected elements, and the one track derived
  from it.
\<close>

lemma emitted_result_fixed:
  assumes "result (terminal_state doc options env start) = Some r"
  shows "result_detectedElements r = empty_elements
         \<and> tracks (metadata r) =
             [\<lparr>name = ''Treble Clef'', instrument = ''Piano'', clef = ''Treble'',
               track_noteCount = 60\<rparr>]"
  using assms
  by (rule_tac terminal_cases [where env = env and doc = doc and options = options and start = start])
    (auto simp add: run_stages_exit finalResult_elements finalResult_tracks derive_tracks_empty)

subsection \<open>Auxiliary facts: the concrete inputs\<close>

lemma example_shouldFail:
  "0 \<le> f \<Longrightarrow> f < 1 \<Longrightarrow> shouldFail (example_env f p) = (f < 1 / 10)"
  by (simp add: shouldFail_def example_env_def draw_value)

lemma example_shouldPartialFail:
  "0 \<le> p \<Longrightarrow> p < 1 \<Longrightarrow> shouldPartialFail (example_env f p) = (p < 15 / 100)"
  by (simp add: shouldPartialFail_def example_env_def draw_value)

lemma example_error_index: "error_index (example_env f p) = 0"
  by (simp add: error_index_def example_env_def Abs_template_index_inverse errorTypes_def)

lemma example_totalTime: "totalTime example_options = 11500"
  by (simp add: totalTime_def baseSteps_def timeMultiplier_def example_options_def)

lemma example_confidence: "confidence (finalResult captured example_file env) = 9 / 10"
  by (simp add: finalResult_def example_file_def toLowerCase_def lower_char_def char_of_eq_iff
      recognise_def)

lemma example_success:
  "terminal_state example_file example_options (example_env (1 / 2) (1 / 2)) initial_state =
     (snd (run_stages example_options (example_env (1 / 2) (1 / 2)) initial_state))
       \<lparr>status := Success,
        result := Some (finalResult empty_elements example_file (example_env (1 / 2) (1 / 2)))\<rparr>"
  by (simp add: terminal_success example_shouldFail example_shouldPartialFail)

lemma example_accumulated:
  "detectedElements (snd (run_stages example_options (example_env (1 / 2) (1 / 2)) initial_state)) =
     \<lparr>timeSignature = Some ''4/4'', keySignature = Some ''C Major'', tempo = Some 120,
      tempoMarking = Some ''Moderato'', clefs = Some [''Treble'', ''Bass''],
      noteCount = Some 150, measures = Some 24,
      dynamics = Some [''p'', ''mf'', ''f''],
      articulations = Some [''staccato'', ''legato'']\<rparr>"
  by (simp add: run_stages_exit example_env_def example_options_def draw_value js_or_def)

lemma active_job_status: "status active_job = Processing \<and> progress active_job = 55"
proof -
  let ?tr = "fst (run_stages example_options (example_env (1 / 2) (1 / 2)) initial_state)"
  have "active_job = ?tr ! 5"
    by (simp add: active_job_def processFile_nth_stage)
  moreover have "status (?tr ! 5) = map status ?tr ! 5" "progress (?tr ! 5) = map progress ?tr ! 5"
    by (simp_all add: run_stages_length)
  ultimately show ?thesis
    by (simp add: run_stages_status run_stages_progress)
qed

subsection \<open>Track derivation and the elements carried by the result\<close>

text \<open>
  Claim C1. The claim reads: the tracks of the emitted metadata are derived from the
  accumulated detected elements, a Treble track with \<open>floor(noteCount * 0.6)\<close> notes and,
  when the accumulated clefs contain \<open>Bass\<close>, a Bass track with \<open>floor(noteCount * 0.4)\<close>.
  The code evaluated on the example run, which ends in success: the accumulated clefs are
  Treble and Bass and the accumulated note count is 150, yet the emitted metadata has the
  single Treble track with 60 notes, where the claim gives a Treble track with 90 notes and
  a Bass track with 60.
\<close>

theorem tracks_ignore_accumulated_elements:
  "clefs (detectedElements
      (terminal_state example_file example_options (example_env (1 / 2) (1 / 2)) initial_state))
     = Some [''Treble'', ''Bass'']
   \<and> noteCount (detectedElements
      (terminal_state example_file example_options (example_env (1 / 2) (1 / 2)) initial_state))
     = Some 150
   \<and> map_option (tracks \<circ> metadata)
       (result (terminal_state example_file example_options (example_env (1 / 2) (1 / 2)) initial_state))
     = Some [\<lparr>name = ''Treble Clef'', instrument = ''Piano'', clef = ''Treble'',
              track_noteCount = 60\<rparr>]"
  by (simp add: example_success example_accumulated finalResult_tracks derive_tracks_empty)

text \<open>
  Claim C2. The claim reads: the emitted result carries the complete record of detected
  elements accumulated by the stages. The code evaluated on the same run: the state cell
  holds all nine fields, and the record inside the emitted result has none of them.
\<close>

theorem result_elements_not_accumulated:
  "status (terminal_state example_file example_options (example_env (1 / 2) (1 / 2)) initial_state)
     = Success
   \<and> detectedElements
       (terminal_state example_file example_options (example_env (1 / 2) (1 / 2)) initial_state)
     = \<lparr>timeSignature = Some ''4/4'', keySignature = Some ''C Major'', tempo = Some 120,
        tempoMarking = Some ''Moderato'', clefs = Some [''Treble'', ''Bass''],
        noteCount = Some 150, measures = Some 24,
        dynamics = Some [''p'', ''mf'', ''f''],
        articulations = Some [''staccato'', ''legato'']\<rparr>
   \<and> map_option result_detectedElements
       (result (terminal_state example_file example_options (example_env (1 / 2) (1 / 2)) initial_state))
     = Some \<lparr>timeSignature = None, keySignature = None, tempo = None, tempoMarking = None,
             clefs = None, noteCount = None, measures = None, dynamics = None,
             articulations = None\<rparr>"
  by (simp add: example_success example_accumulated finalResult_elements empty_elements_def)

subsection \<open>Terminal outcome\<close>

text \<open>
  Claim C3. Every run of \<open>processFile\<close>, from any prior state of the hook, ends in a
  terminal state in which exactly one of result and error is set: either the status is
  \<open>success\<close> or \<open>partial_success\<close>, a result is set and the error is null, or the status
  is \<open>error\<close>, an error is set and the result is null.
\<close>

theorem exactly_one_of_result_and_error:
  "(status (terminal_state doc options env start) = Success
      \<or> status (terminal_state doc options env start) = Partial_success)
     \<and> result (terminal_state doc options env start) \<noteq> None
     \<and> error (terminal_state doc options env start) = None
   \<or> status (terminal_state doc options env start) = Error
     \<and> result (terminal_state doc options env start) = None
     \<and> error (terminal_state doc options env start) \<noteq> None"
  by (rule terminal_cases [where env = env and doc = doc and options = options and start = start])
    (simp_all add: run_stages_exit)

text \<open>
  Claim C4. When the failure condition is raised (the draw of line 196, checked after the
  last stage and before the finalization), nothing of the finalization runs: the terminal
  state is the state the stages had reached with only the error and the status set. The
  status is \<open>error\<close>, no result is set, and the error is the classified one: its kind,
  message and suggestions are those of the entry of \<open>errorTypes\<close> that the failure signal
  (the index of line 230) selects, so that the signal 0 gives \<open>blur\<close>, 1 gives \<open>notation\<close>
  and 2 gives \<open>handwritten\<close>; its list of suggestions is not empty.
\<close>

theorem failure_gives_classified_error:
  assumes "shouldFail env"
  shows "terminal_state doc options env start =
           (snd (run_stages options env start))
             \<lparr>error := Some (thrown_error env), status := Error\<rparr>
         \<and> status (terminal_state doc options env start) = Error
         \<and> result (terminal_state doc options env start) = None
         \<and> error (terminal_state doc options env start) = Some (thrown_error env)
         \<and> error_index env < length errorTypes
         \<and> err_type (thrown_error env) = tmpl_type (errorTypes ! error_index env)
         \<and> message (thrown_error env) = tmpl_message (errorTypes ! error_index env)
         \<and> suggestions (thrown_error env) = tmpl_suggestions (errorTypes ! error_index env)
         \<and> err_type (thrown_error env) = [Blur, Notation, Handwritten] ! error_index env
         \<and> suggestions (thrown_error env) \<noteq> []"
proof -
  have "suggestions (thrown_error env) \<noteq> []"
    using thrown_error_suggestions [of env] by auto
  moreover have "err_type (thrown_error env) = [Blur, Notation, Handwritten] ! error_index env"
    by (rule thrown_error_type)
  ultimately show ?thesis
    using error_index_in_range [of env] thrown_error_template [of env]
    by (simp add: terminal_fail [OF assms] run_stages_exit)
qed

text \<open>
  The theorem at the example run whose failure draw is \<open>1/20\<close> and whose failure signal is
  the index 0, a blur signal: the status is \<open>error\<close>, the kind is \<open>blur\<close>, the suggestions
  are not empty and there is no result.
\<close>

theorem failure_gives_classified_error_witness:
  "shouldFail (example_env (1 / 20) (1 / 2))
   \<and> error_index (example_env (1 / 20) (1 / 2)) = 0
   \<and> status (terminal_state example_file example_options (example_env (1 / 20) (1 / 2)) initial_state)
       = Error
   \<and> result (terminal_state example_file example_options (example_env (1 / 20) (1 / 2)) initial_state)
       = None
   \<and> map_option err_type
       (error (terminal_state example_file example_options (example_env (1 / 20) (1 / 2)) initial_state))
       = Some Blur
   \<and> map_option (\<lambda>e. suggestions e = [])
       (error (terminal_state example_file example_options (example_env (1 / 20) (1 / 2)) initial_state))
       = Some False"
proof -
  have h: "shouldFail (example_env (1 / 20) (1 / 2))"
    by (simp add: example_shouldFail)
  show ?thesis
    using h failure_gives_classified_error
      [OF h, THEN conjunct2, of example_file example_options initial_state]
    by (simp add: example_error_index errorTypes_def)
qed

subsection \<open>The time estimate\<close>

text \<open>
  Claim C5 as stated fails on the code. On the example run in standard mode the estimate
  observable during the second stage is not below the one observable during the first, and
  the estimate during the last stage is 11500, as it is in the terminal state, not 0.
\<close>

theorem estimate_not_decreasing_counterexample:
  "\<not> estimatedTime
        (processFile example_file example_options (example_env (1 / 2) (1 / 2)) initial_state ! 1)
      < estimatedTime
        (processFile example_file example_options (example_env (1 / 2) (1 / 2)) initial_state ! 0)
   \<and> estimatedTime
       (processFile example_file example_options (example_env (1 / 2) (1 / 2)) initial_state ! 9)
     = 11500
   \<and> estimatedTime
       (terminal_state example_file example_options (example_env (1 / 2) (1 / 2)) initial_state)
     \<noteq> 0"
  by (simp add: processFile_estimate_nth terminal_estimate example_totalTime)

text \<open>
  Claim C5, amended. For every job and every processing mode the published time estimate is
  set once, at the start of the job, to the total estimate; it has that same value at each of
  the ten stage boundaries and in the terminal state, and that value is positive.
\<close>

theorem estimate_constant_over_job:
  "map estimatedTime (processFile doc options env start) = replicate 11 (totalTime options)
   \<and> estimatedTime (terminal_state doc options env start) = totalTime options
   \<and> 0 < totalTime options"
  by (simp add: processFile_estimates terminal_estimate totalTime_positive)

text \<open>
  Claim C6. For every options record, the estimate published at the start of the job is the
  sum of the nominal durations of all stages times the multiplier of the processing mode,
  which is 1 for standard, 1.5 for enhanced and 2 for manual assist.
\<close>

theorem total_estimate_at_start:
  "estimatedTime (hd (processFile doc options env start)) =
     of_int (sum_list (map duration baseSteps)) * timeMultiplier options
   \<and> timeMultiplier options =
       (case processingMode options of
          Standard \<Rightarrow> 1 | Enhanced \<Rightarrow> 3 / 2 | Manual_assist \<Rightarrow> 2)"
proof -
  have "estimatedTime (hd (processFile doc options env start)) = totalTime options"
    by (simp add: processFile_hd)
  moreover have "timeMultiplier options =
       (case processingMode options of
          Standard \<Rightarrow> 1 | Enhanced \<Rightarrow> 3 / 2 | Manual_assist \<Rightarrow> 2)"
    by (cases "processingMode options") (simp_all add: timeMultiplier_def)
  ultimately show ?thesis
    by (simp only: totalTime_sum simp_thms)
qed

subsection \<open>Confidence\<close>

text \<open>
  Claim C7. A job that ends in \<open>partial_success\<close> has a result whose confidence is exactly
  0.65, whatever the recognition of title and composer gave; and the confidence of every
  emitted result lies between 0 and 1.
\<close>

theorem partial_success_confidence:
  "(status (terminal_state doc options env start) = Partial_success \<longrightarrow>
      (\<exists>r. result (terminal_state doc options env start) = Some r \<and> confidence r = 65 / 100))
   \<and> (\<forall>r. result (terminal_state doc options env start) = Some r \<longrightarrow>
         0 \<le> confidence r \<and> confidence r \<le> 1)"
  using finalResult_confidence [of empty_elements doc env]
  by (rule_tac terminal_cases [where env = env and doc = doc and options = options and start = start])
    (auto simp add: run_stages_exit)

text \<open>
  The theorem at the example run whose partial-failure draw is \<open>1/10\<close>: the file name
  contains \<open>bach\<close>, for which the recognition gives 0.90; the job ends in
  \<open>partial_success\<close> and the confidence of its result is 0.65.
\<close>

theorem partial_success_confidence_witness:
  "status (terminal_state example_file example_options (example_env (1 / 2) (1 / 10)) initial_state)
     = Partial_success
   \<and> map_option confidence
       (result (terminal_state example_file example_options (example_env (1 / 2) (1 / 10)) initial_state))
       = Some (65 / 100)
   \<and> confidence (finalResult empty_elements example_file (example_env (1 / 2) (1 / 10))) = 9 / 10"
proof -
  have "status (terminal_state example_file example_options (example_env (1 / 2) (1 / 10)) initial_state)
          = Partial_success"
    by (simp add: terminal_partial example_shouldFail example_shouldPartialFail)
  then show ?thesis
    using partial_success_confidence
      [of example_file example_options "example_env (1 / 2) (1 / 10)" initial_state]
    by (auto simp add: example_confidence)
qed

subsection \<open>Progress\<close>

text \<open>
  Claim C8. Over a job the published progress never decreases: it starts at 0 and takes the
  cumulative weights of the stages in order. It is 100 in the terminal state. A failure is
  raised after the last stage, so on \<open>error\<close>, as on \<open>success\<close> and \<open>partial_success\<close>, the
  terminal progress is the value the stages had reached when the run left them.
\<close>

theorem progress_monotone_to_100:
  "sorted (map progress (processFile doc options env start))
   \<and> progress (hd (processFile doc options env start)) = 0
   \<and> progress (terminal_state doc options env start) = 100
   \<and> progress (terminal_state doc options env start) =
       progress (snd (run_stages options env start))"
  by (simp add: processFile_progress processFile_hd terminal_progress run_stages_exit)

subsection \<open>Submitting while a job is active\<close>

text \<open>
  Claim C9 as stated fails on the code. The state \<open>active_job\<close> is that of a job in its
  processing phase, with progress 55. A call of \<open>processFile\<close> in that state is not rejected:
  the first state it publishes has status \<open>uploading\<close> and progress 0, and differs from the
  state of the active job.
\<close>

theorem submit_while_active_counterexample:
  "status active_job = Processing
   \<and> progress active_job = 55
   \<and> status (hd (processFile example_file example_options (example_env (1 / 2) (1 / 2)) active_job))
       = Uploading
   \<and> progress (hd (processFile example_file example_options (example_env (1 / 2) (1 / 2)) active_job))
       = 0
   \<and> hd (processFile example_file example_options (example_env (1 / 2) (1 / 2)) active_job)
       \<noteq> active_job"
proof -
  let ?new = "hd (processFile example_file example_options (example_env (1 / 2) (1 / 2)) active_job)"
  have new: "status ?new = Uploading \<and> progress ?new = 0"
    by (simp add: processFile_hd)
  moreover have "?new \<noteq> active_job"
    using new active_job_status by auto
  ultimately show ?thesis
    by (simp add: active_job_status)
qed

text \<open>
  Claim C9, amended. A call of \<open>processFile\<close> is accepted in every state of the hook, also
  while a job is active and not terminal: it sets the status to \<open>uploading\<close> and the progress
  to 0, clears result, error and detected elements, publishes the total estimate, and runs
  its own ten stages to a terminal state.
\<close>

theorem submit_always_restarts:
  "hd (processFile doc options env start) =
     start\<lparr>status := Uploading, progress := 0, error := None, result := None,
        detectedElements := empty_elements, estimatedTime := totalTime options\<rparr>
   \<and> length (processFile doc options env start) = 11
   \<and> map progress (processFile doc options env start) =
       [0, 5, 15, 25, 35, 55, 70, 80, 85, 95, 100]"
  by (simp add: processFile_hd processFile_length processFile_progress)

subsection \<open>The detected tempo\<close>

text \<open>
  Claim C10. From the end of the third analysis stage on, that is in the states observable
  during the stages with index 4 to 9 and in the terminal state, the tempo of the detected
  elements is the preferred tempo of the options when one is given and positive, and 120
  when none is given. Before that point no tempo is set.
\<close>

theorem tempo_echoes_preferredTempo:
  "(\<forall>p. preferredTempo options = Some p \<and> 0 < p \<longrightarrow>
       map (tempo \<circ> detectedElements) (drop 4 (processFile doc options env start)) =
         replicate 7 (Some p))
   \<and> (preferredTempo options = None \<longrightarrow>
       map (tempo \<circ> detectedElements) (drop 4 (processFile doc options env start)) =
         replicate 7 (Some 120))
   \<and> map (tempo \<circ> detectedElements) (take 4 (processFile doc options env start)) =
       replicate 4 None"
  by (simp add: processFile_tempo js_or_def drop_map [symmetric] take_map [symmetric]
      del: drop_map take_map)

text \<open>
  The theorem at the example run, once with a preferred tempo of 96 and once with none.
\<close>

theorem tempo_echoes_preferredTempo_witness:
  "preferredTempo (example_options\<lparr>preferredTempo := Some 96\<rparr>) = Some 96
   \<and> map (tempo \<circ> detectedElements)
       (drop 4 (processFile example_file (example_options\<lparr>preferredTempo := Some 96\<rparr>)
          (example_env (1 / 2) (1 / 2)) initial_state)) = replicate 7 (Some 96)
   \<and> preferredTempo example_options = None
   \<and> map (tempo \<circ> detectedElements)
       (drop 4 (processFile example_file example_options
          (example_env (1 / 2) (1 / 2)) initial_state)) = replicate 7 (Some 120)"
  using tempo_echoes_preferredTempo
      [of "example_options\<lparr>preferredTempo := Some 96\<rparr>" example_file
          "example_env (1 / 2) (1 / 2)" initial_state]
    tempo_echoes_preferredTempo
      [of example_options example_file "example_env (1 / 2) (1 / 2)" initial_state]
  by (simp add: example_options_def)

end
